theory Spec2Isabelle
  imports Main "HOL-Library.Word"
begin

section \<open>Outcomes of a call\<close>

text \<open>
  A call either returns a value or does not return normally. The ways of not returning
  that occur in the sources modelled here:
  \<^item> a failed \<^verbatim>\<open>assert(...)\<close>, in a build that compiles assertions in (a build with
    \<^verbatim>\<open>NDEBUG\<close> drops the macro and goes on to the next statement);
  \<^item> \<^verbatim>\<open>MIOPEN_THROW(miopenStatusBadParm, ...)\<close>, which raises an exception carrying the
    status code;
  \<^item> reading a \<^verbatim>\<open>std::vector\<close> at a position it does not have, and an integer division
    by zero: both are undefined behaviour in C++, and each is an outcome of its own here;
  \<^item> a signed \<^verbatim>\<open>int\<close> product that leaves the range of the type.
\<close>

datatype error =
  AssertionFailed | miopenStatusBadParm | OutOfRangeRead | DivisionByZero | SignedOverflow

section \<open>conv\_hip\_implicit\_gemm\_grouped\_fwd\_xdlops.cpp\<close>

subsection \<open>Data model\<close>

datatype miopenDataType =
  miopenHalf | miopenFloat | miopenInt32 | miopenInt8 | miopenInt8x4 | miopenBFloat16 | miopenDouble

datatype Direction = Forward | BackwardData | BackwardWeights

text \<open>
  The problem description, as far as this solver reads it. The getters of
  \<^verbatim>\<open>ProblemDescription\<close> and of \<^verbatim>\<open>ProblemInterpreter\<close> are declared in headers outside
  the files at hand, so the value each getter returns is a field of the record. The
  numbers are \<^verbatim>\<open>int\<close>: 32 bits.
\<close>

record ProblemDescription =
  GetInDataType :: miopenDataType
  GetWeightsDataType :: miopenDataType
  GetOutDataType :: miopenDataType
  direction :: Direction
  Is2d :: bool
  IsLayoutNHWC :: bool
  GetGroupCountG :: "32 word"
  GetBatchN :: "32 word"
  GetOutputChannelK :: "32 word"
  GetInputChannelC :: "32 word"
  GetInputHeightHi :: "32 word"
  GetInputWidthWi :: "32 word"
  GetOutputHeightHo :: "32 word"
  GetOutputWidthWo :: "32 word"
  GetFilterHeightY :: "32 word"
  GetFilterWidthX :: "32 word"
  GetAdjustedConvolutionStrideH :: "32 word"
  GetAdjustedConvolutionStrideW :: "32 word"
  GetAdjustedConvolutionDilationH :: "32 word"
  GetAdjustedConvolutionDilationW :: "32 word"
  GetInputLeftPadH :: "32 word"
  GetInputLeftPadW :: "32 word"
  GetAdjustedInputRightPadH :: "32 word"
  GetAdjustedInputRightPadW :: "32 word"

definition IsForward :: "Direction \<Rightarrow> bool" where
  "IsForward d = (d = Forward)"

text \<open>
  \<^verbatim>\<open>struct CKArgsGFwd\<close>. \<^verbatim>\<open>ck::index_t\<close> is a 32-bit integer, so the arrays are lists of
  32-bit words, and the products the constructor forms are kept to 32 bits, as the
  stored values are.
\<close>

record CKArgsGFwd =
  argG :: "32 word"
  argN :: "32 word"
  argK :: "32 word"
  argC :: "32 word"
  "input" :: "32 word list"
  in_strides :: "32 word list"
  "output" :: "32 word list"
  out_strides :: "32 word list"
  weight :: "32 word list"
  wei_strides :: "32 word list"
  strides :: "32 word list"
  dilation :: "32 word list"
  lPadding :: "32 word list"
  rPadding :: "32 word list"

text \<open>
  \<^verbatim>\<open>std::partial_sum(first, last, out, std::multiplies<>{})\<close>: the first element, then each
  running product.
\<close>

fun running_products :: "32 word \<Rightarrow> 32 word list \<Rightarrow> 32 word list" where
  "running_products acc [] = []"
| "running_products acc (x # xs) = (acc * x) # running_products (acc * x) xs"

definition partial_products :: "32 word list \<Rightarrow> 32 word list" where
  "partial_products xs = (case xs of [] \<Rightarrow> [] | x # rest \<Rightarrow> x # running_products x rest)"

text \<open>
  \<^verbatim>\<open>std::partial_sum(rbegin(lens), std::prev(rend(lens)), std::next(rbegin(strs)), ...)\<close>:
  read the lengths back to front, all but the front one, and write the running products
  into the strides back to front, starting one place in from the back.
\<close>

definition fill_strides :: "32 word list \<Rightarrow> 32 word list \<Rightarrow> 32 word list" where
  "fill_strides lens strs =
     (let src = rev (tl lens);
          ps = partial_products src;
          r = rev strs
      in rev (take 1 r @ ps @ drop (1 + length ps) r))"

text \<open>
  \<^verbatim>\<open>std::rotate(rbegin(a), std::next(rbegin(a)), std::next(rbegin(a), 3))\<close>: the last three
  entries, read back to front, are rotated left by one place.
\<close>

definition rotate_back3 :: "32 word list \<Rightarrow> 32 word list" where
  "rotate_back3 a = (let r = rev a in rev (rotate1 (take 3 r) @ drop 3 r))"

definition make_CKArgsGFwd :: "ProblemDescription \<Rightarrow> CKArgsGFwd" where
  "make_CKArgsGFwd problem =
     (let G = GetGroupCountG problem;
          N = GetBatchN problem;
          K = GetOutputChannelK problem;
          C = GetInputChannelC problem;
          inp = [G, N, GetInputHeightHi problem, GetInputWidthWi problem, C];
          outp = [G, N, GetOutputHeightHo problem, GetOutputWidthWo problem, K];
          wei = [G, K, GetFilterHeightY problem, GetFilterWidthX problem, C];
          ins = fill_strides inp [0, 0, 0, 0, 1];
          weis = fill_strides wei [0, 0, 0, 0, 1];
          outs = fill_strides outp [0, 0, 0, 0, 1]
      in \<lparr> argG = G, argN = N, argK = K, argC = C,
           input = rotate_back3 inp,
           in_strides = rotate_back3 ins,
           output = rotate_back3 outp,
           out_strides = rotate_back3 outs,
           weight = rotate_back3 wei,
           wei_strides = rotate_back3 weis,
           strides = [GetAdjustedConvolutionStrideH problem, GetAdjustedConvolutionStrideW problem],
           dilation = [GetAdjustedConvolutionDilationH problem, GetAdjustedConvolutionDilationW problem],
           lPadding = [GetInputLeftPadH problem, GetInputLeftPadW problem],
           rPadding = [GetAdjustedInputRightPadH problem, GetAdjustedInputRightPadW problem] \<rparr>)"

text \<open>
  The backing library. \<^verbatim>\<open>DeviceOpGFwdPtrs<DataType>::GetInstances()\<close> returns the list of
  kernel instances for an element type; an instance has a type string and answers whether
  it supports an argument built from the \<^verbatim>\<open>CKArgsGFwd\<close> fields. The library is outside the
  files at hand and is a parameter of the model.
\<close>

datatype DataType = half_t | float

record DeviceOp =
  GetTypeString :: string
  IsSupportedArgument :: "CKArgsGFwd \<Rightarrow> bool"

text \<open>
  What the solver reads from its surroundings: whether the build has
  \<^verbatim>\<open>MIOPEN_BACKEND_HIP && MIOPEN_USE_COMPOSABLEKERNEL\<close>, whether it was compiled with
  \<^verbatim>\<open>NDEBUG\<close> (assertions dropped), the instance lists, and the two environment switches
  tested by \<^verbatim>\<open>IsApplicable\<close>.
\<close>

record Env =
  HIP_and_COMPOSABLEKERNEL :: bool
  NDEBUG :: bool
  GetInstances :: "DataType \<Rightarrow> DeviceOp list"
  IsDisabled_GROUP_CONV_IMPLICIT_GEMM_HIP_FWD_XDLOPS :: bool
  IsEnabled_CONVOLUTION_DETERMINISTIC :: bool

text \<open>
  \<^verbatim>\<open>PerformanceConfigHipImplicitGemmGroupFwdXdlops\<close>: \<^verbatim>\<open>int index\<close> (32 bits, read as
  signed), \<^verbatim>\<open>std::string kernel_id\<close>, \<^verbatim>\<open>std::vector<std::string> valid_kernels\<close>.
\<close>

record PerformanceConfig =
  index :: "32 word"
  kernel_id :: string
  valid_kernels :: "string list"

text \<open>
  Comparing or indexing with an \<^verbatim>\<open>int\<close> against a \<^verbatim>\<open>size_t\<close> converts the \<^verbatim>\<open>int\<close> to
  64 bits unsigned: its value modulo \<open>2 ^ 64\<close>.
\<close>

definition size_t_of_int :: "32 word \<Rightarrow> nat" where
  "size_t_of_int i = nat (sint i mod 2 ^ 64)"

subsection \<open>Init, HeuristicInit\<close>

text \<open>The loop of \<^verbatim>\<open>Init\<close>: every supported instance's type string is pushed back.\<close>

fun Init_loop :: "DeviceOp list \<Rightarrow> CKArgsGFwd \<Rightarrow> string list \<Rightarrow> string list" where
  "Init_loop [] args vk = vk"
| "Init_loop (p # ps) args vk =
     Init_loop ps args (if IsSupportedArgument p args then vk @ [GetTypeString p] else vk)"

text \<open>
  \<^verbatim>\<open>Init\<close>. With assertions compiled in, an empty instance list stops at the first
  assertion and an empty \<^verbatim>\<open>valid_kernels\<close> after the loop at the second. With \<^verbatim>\<open>NDEBUG\<close>
  both are dropped, and \<^verbatim>\<open>valid_kernels[0]\<close> is read whether or not there is an entry.
\<close>

definition Init :: "Env \<Rightarrow> DataType \<Rightarrow> ProblemDescription \<Rightarrow> PerformanceConfig
    \<Rightarrow> error + PerformanceConfig" where
  "Init env t problem cfg =
     (let args = make_CKArgsGFwd problem;
          conv_ptrs = GetInstances env t
      in if conv_ptrs = [] \<and> \<not> NDEBUG env then Inl AssertionFailed
         else let vk = Init_loop conv_ptrs args (valid_kernels cfg)
              in if vk = [] \<and> \<not> NDEBUG env then Inl AssertionFailed
                 else if vk = [] then Inl OutOfRangeRead
                 else Inr (cfg\<lparr> valid_kernels := vk, index := 0, kernel_id := vk ! 0 \<rparr>))"

definition HeuristicInit :: "Env \<Rightarrow> ProblemDescription \<Rightarrow> PerformanceConfig
    \<Rightarrow> error + PerformanceConfig" where
  "HeuristicInit env problem cfg =
     (if \<not> HIP_and_COMPOSABLEKERNEL env then Inr cfg
      else case GetInDataType problem of
             miopenHalf \<Rightarrow> Init env half_t problem cfg
           | miopenFloat \<Rightarrow> Init env float problem cfg
           | miopenInt8 \<Rightarrow> Inr cfg
           | miopenInt32 \<Rightarrow> Inr cfg
           | miopenInt8x4 \<Rightarrow> Inr cfg
           | miopenBFloat16 \<Rightarrow> Inr cfg
           | miopenDouble \<Rightarrow> Inr cfg)"

subsection \<open>SetNextValue, IsValidValue, operator==\<close>

text \<open>
  \<^verbatim>\<open>SetNextValue\<close>. The assertion after \<^verbatim>\<open>HeuristicInit\<close> stops the call only in a build
  with assertions; with \<^verbatim>\<open>NDEBUG\<close> the call returns true whatever \<^verbatim>\<open>valid_kernels\<close> holds.
\<close>

definition SetNextValue :: "Env \<Rightarrow> ProblemDescription \<Rightarrow> PerformanceConfig
    \<Rightarrow> error + (bool \<times> PerformanceConfig)" where
  "SetNextValue env problem cfg =
     (if valid_kernels cfg = [] then
        (case HeuristicInit env problem cfg of
           Inl e \<Rightarrow> Inl e
         | Inr cfg' \<Rightarrow> if valid_kernels cfg' = [] \<and> \<not> NDEBUG env then Inl AssertionFailed
                       else Inr (True, cfg'))
      else if size_t_of_int (index cfg + 1) < length (valid_kernels cfg) then
        Inr (True, cfg\<lparr> index := index cfg + 1,
                        kernel_id := valid_kernels cfg ! size_t_of_int (index cfg + 1) \<rparr>)
      else Inr (False, cfg))"

definition IsValidValue :: "PerformanceConfig \<Rightarrow> bool" where
  "IsValidValue cfg = (size_t_of_int (index cfg) < length (valid_kernels cfg))"

definition config_eq :: "PerformanceConfig \<Rightarrow> PerformanceConfig \<Rightarrow> bool" where
  "config_eq this other = (kernel_id this = kernel_id other)"


text \<open>
  The caller's loop over the configuration space: \<^verbatim>\<open>SetNextValue\<close> is called again and
  again, the \<^verbatim>\<open>kernel_id\<close> is recorded after every call that returns true, and the loop
  ends at the first call that returns false. The first argument bounds the number of
  calls; \<open>None\<close> means the bound was reached before a call returned false.
\<close>

fun visit_all :: "nat \<Rightarrow> Env \<Rightarrow> ProblemDescription \<Rightarrow> PerformanceConfig
    \<Rightarrow> (error + string list) option" where
  "visit_all 0 env problem cfg = None"
| "visit_all (Suc n) env problem cfg =
     (case SetNextValue env problem cfg of
        Inl e \<Rightarrow> Some (Inl e)
      | Inr (again, cfg') \<Rightarrow>
          if again then
            (case visit_all n env problem cfg' of
               None \<Rightarrow> None
             | Some (Inl e) \<Rightarrow> Some (Inl e)
             | Some (Inr ks) \<Rightarrow> Some (Inr (kernel_id cfg' # ks)))
          else Some (Inr []))"

subsection \<open>CheckCKApplicability, IsApplicable\<close>

text \<open>The loop of \<^verbatim>\<open>CheckCKApplicability\<close>: true at the first instance that supports the argument.\<close>

fun CheckCKApplicability_loop :: "DeviceOp list \<Rightarrow> CKArgsGFwd \<Rightarrow> bool" where
  "CheckCKApplicability_loop [] args = False"
| "CheckCKApplicability_loop (p # ps) args =
     (if IsSupportedArgument p args then True else CheckCKApplicability_loop ps args)"

definition CheckCKApplicability :: "Env \<Rightarrow> DataType \<Rightarrow> ProblemDescription \<Rightarrow> error + bool" where
  "CheckCKApplicability env t problem =
     (let conv_ptrs = GetInstances env t
      in if conv_ptrs = [] \<and> \<not> NDEBUG env then Inl AssertionFailed
         else let args = make_CKArgsGFwd problem
              in if \<not> list_all (\<lambda>x. x = 1) (strides args) then Inr False
                 else Inr (CheckCKApplicability_loop conv_ptrs args))"

text \<open>
  \<^verbatim>\<open>ConvolutionContext\<close>: the solver reads the device name of the context's stream.
\<close>

record ConvolutionContext =
  GetDeviceName :: string

text \<open>
  \<^verbatim>\<open>IsApplicable\<close> returns, next to its result, the device- and library-specific queries it
  made, in the order it made them: reading the device name for the architecture
  allow-list, and calling \<^verbatim>\<open>CheckCKApplicability<DataType>\<close>.
\<close>

datatype query = ArchitectureQuery | LibraryQuery DataType

definition IsApplicable :: "Env \<Rightarrow> ConvolutionContext \<Rightarrow> ProblemDescription
    \<Rightarrow> query list \<times> (error + bool)" where
  "IsApplicable env ctx problem =
     (if \<not> HIP_and_COMPOSABLEKERNEL env then ([], Inr False)
      else if IsDisabled_GROUP_CONV_IMPLICIT_GEMM_HIP_FWD_XDLOPS env then ([], Inr False)
      else if IsEnabled_CONVOLUTION_DETERMINISTIC env then ([], Inr False)
      else if GetInDataType problem \<noteq> GetWeightsDataType problem \<or>
              GetWeightsDataType problem \<noteq> GetOutDataType problem \<or>
              GetInDataType problem \<noteq> GetOutDataType problem then ([], Inr False)
      else if \<not> IsForward (direction problem) then ([], Inr False)
      else if \<not> Is2d problem then ([], Inr False)
      else if \<not> IsLayoutNHWC problem then ([], Inr False)
      else let arch = GetDeviceName ctx
           in if \<not> (arch = ''gfx908'' \<or> arch = ''gfx90a'') then ([ArchitectureQuery], Inr False)
              else case GetInDataType problem of
                     miopenHalf \<Rightarrow>
                       ([ArchitectureQuery, LibraryQuery half_t],
                        CheckCKApplicability env half_t problem)
                   | miopenFloat \<Rightarrow>
                       ([ArchitectureQuery, LibraryQuery float],
                        CheckCKApplicability env float problem)
                   | miopenInt8 \<Rightarrow> ([ArchitectureQuery], Inr False)
                   | miopenInt32 \<Rightarrow> ([ArchitectureQuery], Inr False)
                   | miopenInt8x4 \<Rightarrow> ([ArchitectureQuery], Inr False)
                   | miopenBFloat16 \<Rightarrow> ([ArchitectureQuery], Inr False)
                   | miopenDouble \<Rightarrow> ([ArchitectureQuery], Inr False))"

section \<open>cat/forward\_cat.cpp\<close>

subsection \<open>Data model\<close>

text \<open>
  The cat problem description, as far as \<^verbatim>\<open>CatForward\<close> reads it. Its member functions
  and the tensor descriptors are declared in headers outside the files at hand; what each
  getter returns is a field: the tensor count and the concatenation dimension (both
  \<^verbatim>\<open>int\<close>), the four checks of the problem, the element count, type, lengths and strides of
  the output descriptor, and the lengths of each input descriptor. Lengths and strides
  are \<^verbatim>\<open>size_t\<close>: 64 bits, unsigned.
\<close>

record CatProblemDescription =
  GetXCount :: int
  IsSameType :: bool
  IsRightDim :: bool
  IsRightLength :: bool
  IsAllPacked :: bool
  GetYDescElementSize :: nat
  GetYDescType :: miopenDataType
  GetYDescLengths :: "64 word list"
  GetYDescStrides :: "64 word list"
  GetDim :: int
  GetXDescLengths :: "64 word list list"

text \<open>The execution context: \<^verbatim>\<open>GetSolution\<close> reads the stream's number of compute units.\<close>

record ExecutionContext =
  GetMaxComputeUnits :: "64 word"

definition LOCAL_SIZE :: "32 word" where
  "LOCAL_SIZE = 256"

definition MAX_TENSOR_X_COUNT :: int where
  "MAX_TENSOR_X_COUNT = 8"

definition MIN_OUTPUT_TENSOR_SIZE :: nat where
  "MIN_OUTPUT_TENSOR_SIZE = 1000000"

subsection \<open>IsApplicable\<close>

definition IsUnderXCountLimit :: "CatProblemDescription \<Rightarrow> error + bool" where
  "IsUnderXCountLimit problem =
     (if GetXCount problem > MAX_TENSOR_X_COUNT then Inl miopenStatusBadParm else Inr True)"

definition IsImprovementOverROCm :: "CatProblemDescription \<Rightarrow> bool" where
  "IsImprovementOverROCm problem =
     (if GetYDescElementSize problem < MIN_OUTPUT_TENSOR_SIZE then False else True)"

text \<open>\<^verbatim>\<open>CatForward::IsApplicable\<close>; the execution context is not read.\<close>

definition CatForward_IsApplicable :: "'context \<Rightarrow> CatProblemDescription \<Rightarrow> error + bool" where
  "CatForward_IsApplicable context problem =
     (case IsUnderXCountLimit problem of
        Inl e \<Rightarrow> Inl e
      | Inr within \<Rightarrow>
          if \<not> within then Inr False
          else if \<not> IsSameType problem then Inr False
          else if \<not> IsRightDim problem then Inr False
          else if \<not> IsRightLength problem then Inr False
          else if \<not> IsAllPacked problem then Inr False
          else if \<not> IsImprovementOverROCm problem then Inr False
          else Inr True)"

subsection \<open>GetSolution: the launch geometry\<close>

text \<open>
  \<^verbatim>\<open>v[i]\<close> on a vector with an \<^verbatim>\<open>int\<close> position: the position is converted to unsigned, so
  a negative one is past the end like any position from the size on.
\<close>

definition at_index :: "'a list \<Rightarrow> int \<Rightarrow> error + 'a" where
  "at_index xs i =
     (if 0 \<le> i \<and> i < int (length xs) then Inr (xs ! nat i) else Inl OutOfRangeRead)"

text \<open>
  The conversions and comparisons of the geometry lines. \<^verbatim>\<open>static_cast<int>\<close> of a
  \<^verbatim>\<open>size_t\<close> keeps the low 32 bits; an \<^verbatim>\<open>int\<close> stored in a \<^verbatim>\<open>size_t\<close> is sign-extended;
  \<^verbatim>\<open>std::min\<close> and \<^verbatim>\<open>std::max\<close> on \<^verbatim>\<open>int\<close> compare signed values.
\<close>

definition static_cast_int :: "64 word \<Rightarrow> 32 word" where
  "static_cast_int x = ucast x"

definition size_t_of :: "32 word \<Rightarrow> 64 word" where
  "size_t_of i = scast i"

definition std_min :: "32 word \<Rightarrow> 32 word \<Rightarrow> 32 word" where
  "std_min a b = (if sint b < sint a then b else a)"

definition std_max :: "32 word \<Rightarrow> 32 word \<Rightarrow> 32 word" where
  "std_max a b = (if sint a < sint b then b else a)"

definition AlignUp :: "64 word \<Rightarrow> 64 word \<Rightarrow> error + 64 word" where
  "AlignUp num align =
     (if align = 0 then Inl DivisionByZero else Inr ((num + align - 1) div align * align))"

text \<open>
  The loop \<^verbatim>\<open>for(int i = 0; i < xCount; i++)\<close> that takes the largest length of the inputs
  along the concatenation dimension.
\<close>

function x_dim_size_max_loop :: "64 word list list \<Rightarrow> int \<Rightarrow> int \<Rightarrow> int \<Rightarrow> 64 word
    \<Rightarrow> error + 64 word" where
  "x_dim_size_max_loop xdescs dim xCount i x_dim_size_max =
     (if i < xCount then
        (case at_index xdescs i of
           Inl e \<Rightarrow> Inl e
         | Inr xdims \<Rightarrow>
             (case at_index xdims dim of
                Inl e \<Rightarrow> Inl e
              | Inr d \<Rightarrow> x_dim_size_max_loop xdescs dim xCount (i + 1) (max x_dim_size_max d)))
      else Inr x_dim_size_max)"
  by pat_completeness auto
termination
  by (relation "measure (\<lambda>(xdescs, dim, xCount, i, m). nat (xCount - i))") auto

text \<open>
  \<^verbatim>\<open>std::accumulate(ydims.begin(), ydims.begin() + dim, 1ULL, std::multiplies<size_t>())\<close>:
  the product of the lengths before the concatenation dimension.
\<close>

definition outer_size_of :: "64 word list \<Rightarrow> int \<Rightarrow> error + 64 word" where
  "outer_size_of ydims dim =
     (if 0 \<le> dim \<and> dim \<le> int (length ydims) then Inr (foldl (*) 1 (take (nat dim) ydims))
      else Inl OutOfRangeRead)"

text \<open>
  The local and global work sizes, from \<^verbatim>\<open>size_t xlocalsize = ...\<close> to the last assignment
  of \<^verbatim>\<open>xgridsize\<close>. Two quotients have a divisor that can be zero: \<^verbatim>\<open>LOCAL_SIZE / xlocalsize\<close>
  and \<^verbatim>\<open>numCu * 8 / (ygridsize / ylocalsize)\<close>.
\<close>

definition work_sizes :: "64 word \<Rightarrow> 64 word \<Rightarrow> 64 word \<Rightarrow> 64 word
    \<Rightarrow> error + (64 word list \<times> 64 word list)" where
  "work_sizes numCu x_dim_size_max stride outer_size =
     (let xlocalsize = size_t_of (std_min (static_cast_int (x_dim_size_max * stride)) LOCAL_SIZE)
      in if xlocalsize = 0 then Inl DivisionByZero
         else
           let ylocalsize =
                 size_t_of (std_max (static_cast_int (size_t_of LOCAL_SIZE div xlocalsize)) 1);
               zlocalsize = 1
           in case AlignUp outer_size ylocalsize of
                Inl e \<Rightarrow> Inl e
              | Inr ygridsize \<Rightarrow>
                  if ygridsize div ylocalsize = 0 then Inl DivisionByZero
                  else
                    let xgridsize =
                          size_t_of (std_max
                            (static_cast_int (numCu * 8 div (ygridsize div ylocalsize))) 1)
                          * xlocalsize;
                        zgridsize = 1
                    in case AlignUp (x_dim_size_max * stride) xlocalsize of
                         Inl e \<Rightarrow> Inl e
                       | Inr aligned \<Rightarrow>
                           Inr ([xlocalsize, ylocalsize, zlocalsize],
                                [min xgridsize aligned, ygridsize, zgridsize]))"

text \<open>
  \<^verbatim>\<open>GetSolution\<close> up to the work sizes: the stride of the output along the concatenation
  dimension, the largest input length along it, the compute units, the outer size, and
  the work sizes, in the order of the source.
\<close>

definition GetSolution_geometry :: "ExecutionContext \<Rightarrow> CatProblemDescription
    \<Rightarrow> error + (64 word list \<times> 64 word list)" where
  "GetSolution_geometry context problem =
     (let ydims = GetYDescLengths problem;
          dim = GetDim problem
      in case at_index (GetYDescStrides problem) dim of
           Inl e \<Rightarrow> Inl e
         | Inr stride \<Rightarrow>
             (case x_dim_size_max_loop (GetXDescLengths problem) dim (GetXCount problem) 0 0 of
                Inl e \<Rightarrow> Inl e
              | Inr x_dim_size_max \<Rightarrow>
                  (case outer_size_of ydims dim of
                     Inl e \<Rightarrow> Inl e
                   | Inr outer_size \<Rightarrow>
                       work_sizes (GetMaxComputeUnits context) x_dim_size_max stride outer_size)))"

subsection \<open>GetSolution: the kernel\<close>

text \<open>
  The doubling loop, written as the source has it, with no bound of its own, so not
  returning is the value \<open>None\<close>. \<^verbatim>\<open>fusion_size\<close> is an \<^verbatim>\<open>int\<close>; a doubling that leaves
  the range of \<^verbatim>\<open>int\<close> is an outcome of its own.
\<close>

partial_function (option) fusion_size_loop :: "int \<Rightarrow> int \<Rightarrow> (error + int) option" where
  "fusion_size_loop fusion_size xCount =
     (if fusion_size < xCount then
        (if 2 ^ 31 \<le> fusion_size * 2 then Some (Inl SignedOverflow)
         else fusion_size_loop (fusion_size * 2) xCount)
      else Some (Inr fusion_size))"

declare fusion_size_loop.simps [code]

declare x_dim_size_max_loop.simps [simp del]

text \<open>The \<^verbatim>\<open>switch\<close>; in the \<^verbatim>\<open>default\<close> case the kernel name stays the empty string.\<close>

definition kernel_name_switch :: "int \<Rightarrow> string" where
  "kernel_name_switch fusion_size =
     (if fusion_size = 2 then ''Cat2FwdPacked''
      else if fusion_size = 4 then ''Cat4FwdPacked''
      else if fusion_size = 8 then ''Cat8FwdPacked''
      else [])"

text \<open>
  \<^verbatim>\<open>KernelInfo\<close>, the one entry of the solution's \<^verbatim>\<open>construction_params\<close>. The compile
  options are generated from the build parameters by a function outside the files at
  hand; the record keeps the parameters. The invoker closures run when the kernel is
  launched and are not part of what \<^verbatim>\<open>GetSolution\<close> computes.
\<close>

record KernelInfo =
  build_params :: "(string \<times> int) list"
  l_wk :: "64 word list"
  g_wk :: "64 word list"
  kernel_file :: string
  kernel_name :: string

definition GetSolution :: "ExecutionContext \<Rightarrow> CatProblemDescription
    \<Rightarrow> (error + KernelInfo) option" where
  "GetSolution context problem =
     (let dtype = GetYDescType problem
      in case GetSolution_geometry context problem of
           Inl e \<Rightarrow> Some (Inl e)
         | Inr (local_sizes, grid_sizes) \<Rightarrow>
             (case fusion_size_loop 2 (GetXCount problem) of
                None \<Rightarrow> None
              | Some (Inl e) \<Rightarrow> Some (Inl e)
              | Some (Inr fusion_size) \<Rightarrow>
                  Some (Inr \<lparr> build_params =
                               [(''MIOPEN_USE_FP16'', if dtype = miopenHalf then 1 else 0),
                                (''MIOPEN_USE_FP32'', if dtype = miopenFloat then 1 else 0),
                                (''MIOPEN_USE_FP64'', if dtype = miopenDouble then 1 else 0),
                                (''MIOPEN_USE_BFP16'', if dtype = miopenBFloat16 then 1 else 0)],
                             l_wk = local_sizes,
                             g_wk = grid_sizes,
                             kernel_file = ''MIOpenCat.cpp'',
                             kernel_name = kernel_name_switch fusion_size \<rparr>)))"

section \<open>db\_preload.hpp\<close>

text \<open>
  \<^verbatim>\<open>struct DbPreloadStates\<close>: the map from a path to the load started for it, and the
  flag \<^verbatim>\<open>started_loading\<close>, which a new instance holds as false. A path is a string; a
  load is known by the preloader it was started with. The mutex orders concurrent
  callers and has no counterpart in a sequence of calls.
\<close>

record 'preloader DbPreloadStates =
  futures :: "string \<rightharpoonup> 'preloader"
  started_loading :: bool

definition new_DbPreloadStates :: "'preloader DbPreloadStates" where
  "new_DbPreloadStates = \<lparr> futures = Map.empty, started_loading = False \<rparr>"

text \<open>
  Modelled from the spec: \<^verbatim>\<open>StartPreloadingDb\<close>, declared in db\_preload.hpp and defined
  outside the files at hand. "If no load for path is in flight or completed, begins one
  asynchronously and records its handle; if one already exists, this call is a no-op."
\<close>

definition StartPreloadingDb :: "string \<Rightarrow> 'preloader \<Rightarrow> 'preloader DbPreloadStates
    \<Rightarrow> 'preloader DbPreloadStates" where
  "StartPreloadingDb path preloader states =
     (case futures states path of
        Some started \<Rightarrow> states
      | None \<Rightarrow> states\<lparr> futures := (futures states)(path \<mapsto> preloader) \<rparr>)"

text \<open>
  Modelled from the spec: \<^verbatim>\<open>GetPreloadedRamDb\<close> and \<^verbatim>\<open>GetPreloadedReadonlyRamDb\<close>,
  declared in db\_preload.hpp and defined outside the files at hand. "The store is
  removed from the shared map once claimed"; the caller gets the load that was started
  for the path, or nothing (and then loads inline).
\<close>

definition GetPreloaded :: "string \<Rightarrow> 'preloader DbPreloadStates
    \<Rightarrow> 'preloader option \<times> 'preloader DbPreloadStates" where
  "GetPreloaded path states =
     (futures states path, states\<lparr> futures := (futures states)(path := None) \<rparr>)"

text \<open>
  Modelled from the spec: the preload action handed to \<^verbatim>\<open>TryStartPreloadingDbs\<close>, which
  "calls StartPreloading for each known table": the list of tables with their preloaders.
\<close>

fun run_preload :: "(string \<times> 'preloader) list \<Rightarrow> 'preloader DbPreloadStates
    \<Rightarrow> 'preloader DbPreloadStates" where
  "run_preload [] states = states"
| "run_preload ((path, preloader) # tables) states =
     run_preload tables (StartPreloadingDb path preloader states)"

text \<open>
  Modelled from the spec: \<^verbatim>\<open>TryStartPreloadingDbs\<close>, declared in db\_preload.hpp and
  defined outside the files at hand. It "runs preloadAction at most once per process,
  guarded by the one-shot started flag". The first component of the result tells
  whether this call invoked the action.
\<close>

definition TryStartPreloadingDbs :: "(string \<times> 'preloader) list \<Rightarrow> 'preloader DbPreloadStates
    \<Rightarrow> bool \<times> 'preloader DbPreloadStates" where
  "TryStartPreloadingDbs preload states =
     (if started_loading states then (False, states)
      else (True, run_preload preload (states\<lparr> started_loading := True \<rparr>)))"

text \<open>
  A sequence of operations on one \<^verbatim>\<open>DbPreloadStates\<close> instance, and the number of times
  the preload action was invoked along it.
\<close>

datatype 'preloader preload_op =
  TryStart "(string \<times> 'preloader) list"
| Start string 'preloader
| Get string

fun run_ops :: "'preloader preload_op list \<Rightarrow> 'preloader DbPreloadStates
    \<Rightarrow> nat \<times> 'preloader DbPreloadStates" where
  "run_ops [] states = (0, states)"
| "run_ops (TryStart preload # ops) states =
     (case TryStartPreloadingDbs preload states of
        (invoked, states') \<Rightarrow>
          (case run_ops ops states' of
             (n, states'') \<Rightarrow> ((if invoked then 1 else 0) + n, states'')))"
| "run_ops (Start path preloader # ops) states =
     run_ops ops (StartPreloadingDb path preloader states)"
| "run_ops (Get path # ops) states = run_ops ops (snd (GetPreloaded path states))"

section \<open>Example inputs\<close>

definition example_instances :: "DeviceOp list" where
  "example_instances =
     [\<lparr> GetTypeString = ''Xdl_256x128x128'',
        IsSupportedArgument = (\<lambda>args. sint (argK args) mod 128 = 0) \<rparr>,
      \<lparr> GetTypeString = ''Xdl_128x64x64'',
        IsSupportedArgument = (\<lambda>args. sint (argK args) mod 64 = 0) \<rparr>,
      \<lparr> GetTypeString = ''Xdl_64x32x32'',
        IsSupportedArgument = (\<lambda>args. sint (argK args) mod 32 = 0) \<rparr>]"

definition example_env :: Env where
  "example_env =
     \<lparr> HIP_and_COMPOSABLEKERNEL = True,
       NDEBUG = False,
       GetInstances = (\<lambda>t. example_instances),
       IsDisabled_GROUP_CONV_IMPLICIT_GEMM_HIP_FWD_XDLOPS = False,
       IsEnabled_CONVOLUTION_DETERMINISTIC = False \<rparr>"

definition example_problem :: "miopenDataType \<Rightarrow> 32 word \<Rightarrow> 32 word \<Rightarrow> ProblemDescription" where
  "example_problem t k stride =
     \<lparr> GetInDataType = t, GetWeightsDataType = t, GetOutDataType = t,
       direction = Forward, Is2d = True, IsLayoutNHWC = True,
       GetGroupCountG = 1, GetBatchN = 2, GetOutputChannelK = k, GetInputChannelC = 32,
       GetInputHeightHi = 8, GetInputWidthWi = 8, GetOutputHeightHo = 8, GetOutputWidthWo = 8,
       GetFilterHeightY = 3, GetFilterWidthX = 3,
       GetAdjustedConvolutionStrideH = stride, GetAdjustedConvolutionStrideW = stride,
       GetAdjustedConvolutionDilationH = 1, GetAdjustedConvolutionDilationW = 1,
       GetInputLeftPadH = 1, GetInputLeftPadW = 1,
       GetAdjustedInputRightPadH = 1, GetAdjustedInputRightPadW = 1 \<rparr>"

definition example_config :: PerformanceConfig where
  "example_config = \<lparr> index = 0, kernel_id = [], valid_kernels = [] \<rparr>"

text \<open>
  A cat problem of \<open>n\<close> inputs out of eight descriptors of 250 by 1000 elements, joined
  along dimension 0 into an output of 2000 by 1000.
\<close>

definition example_cat_problem :: "int \<Rightarrow> CatProblemDescription" where
  "example_cat_problem n =
     \<lparr> GetXCount = n, IsSameType = True, IsRightDim = True, IsRightLength = True,
       IsAllPacked = True, GetYDescElementSize = 2000000,
       GetYDescType = miopenFloat,
       GetYDescLengths = [2000, 1000],
       GetYDescStrides = [1000, 1],
       GetDim = 0,
       GetXDescLengths = [[250, 1000], [250, 1000], [250, 1000], [250, 1000],
                          [250, 1000], [250, 1000], [250, 1000], [250, 1000]] \<rparr>"

text \<open>
  Two packed inputs of 65536 by 65536 elements, joined along dimension 0 into an output
  of 131072 by 65536.
\<close>

definition example_cat_problem_large :: CatProblemDescription where
  "example_cat_problem_large =
     \<lparr> GetXCount = 2, IsSameType = True, IsRightDim = True, IsRightLength = True,
       IsAllPacked = True, GetYDescElementSize = 8589934592,
       GetYDescType = miopenFloat,
       GetYDescLengths = [131072, 65536],
       GetYDescStrides = [65536, 1],
       GetDim = 0,
       GetXDescLengths = [[65536, 65536], [65536, 65536]] \<rparr>"

definition example_context :: ExecutionContext where
  "example_context = \<lparr> GetMaxComputeUnits = 104 \<rparr>"

section \<open>Properties of the grouped forward XDLOPS solver\<close>

subsection \<open>The index as a size\<close>

lemma sint_of_nat_small:
  assumes "k < 2 ^ 31"
  shows "sint (of_nat k :: 32 word) = int k"
proof -
  have "sint (of_nat k :: 32 word) = (int k + 2 ^ 31) mod 2 ^ 32 - 2 ^ 31"
    using int_word_sint [of "int k", where 'a = 32] by simp
  moreover have "(int k + 2 ^ 31) mod 2 ^ 32 = int k + 2 ^ 31"
    using assms by (intro mod_pos_pos_trivial) auto
  ultimately show ?thesis by simp
qed

lemma size_t_of_int_of_nat:
  assumes "k < 2 ^ 31"
  shows "size_t_of_int (of_nat k) = k"
proof -
  have "int k mod 2 ^ 64 = int k"
    using assms by (intro mod_pos_pos_trivial) auto
  then show ?thesis
    by (simp add: size_t_of_int_def sint_of_nat_small [OF assms])
qed

lemma size_t_of_int_0: "size_t_of_int 0 = 0"
  by (simp add: size_t_of_int_def)

lemma size_t_of_int_1: "size_t_of_int 1 = 1"
  using size_t_of_int_of_nat [of 1] by simp

subsection \<open>What initialisation leaves behind\<close>

lemma Init_loop_eq:
  "Init_loop ps args vk = vk @ map GetTypeString (filter (\<lambda>p. IsSupportedArgument p args) ps)"
  by (induction ps arbitrary: vk) auto

lemma Init_Inr:
  assumes "Init env t problem cfg = Inr c"
  shows "valid_kernels c \<noteq> [] \<and> index c = 0 \<and> kernel_id c = valid_kernels c ! 0"
  using assms by (auto simp: Init_def Let_def split: if_splits)

lemma HeuristicInit_Inr:
  assumes "HeuristicInit env problem cfg = Inr c"
  shows "c = cfg \<or> (valid_kernels c \<noteq> [] \<and> index c = 0 \<and> kernel_id c = valid_kernels c ! 0)"
  using assms
  by (auto simp: HeuristicInit_def dest: Init_Inr split: if_splits miopenDataType.splits)

lemma example_HeuristicInit:
  "HeuristicInit example_env (example_problem miopenFloat 64 1) example_config =
     Inr \<lparr> index = 0, kernel_id = ''Xdl_128x64x64'',
           valid_kernels = [''Xdl_128x64x64'', ''Xdl_64x32x32''] \<rparr>"
  by (simp add: HeuristicInit_def Init_def example_env_def example_problem_def example_config_def
      example_instances_def make_CKArgsGFwd_def Let_def)

subsection \<open>One step of SetNextValue\<close>

lemma SetNextValue_step:
  assumes "valid_kernels cfg \<noteq> []" and "index cfg = of_nat i"
    and "Suc i < length (valid_kernels cfg)" and "length (valid_kernels cfg) < 2 ^ 31"
  shows "SetNextValue env problem cfg =
           Inr (True, cfg\<lparr> index := of_nat (Suc i), kernel_id := valid_kernels cfg ! Suc i \<rparr>)"
proof -
  have "Suc i < 2 ^ 31" using assms by simp
  then have "size_t_of_int (of_nat (Suc i)) = Suc i" by (rule size_t_of_int_of_nat)
  moreover have "index cfg + 1 = of_nat (Suc i)" using assms(2) by simp
  ultimately have "size_t_of_int (index cfg + 1) = Suc i" by (simp only:)
  with assms show ?thesis by (simp add: SetNextValue_def)
qed

lemma SetNextValue_last:
  assumes "valid_kernels cfg \<noteq> []" and "index cfg = of_nat i"
    and "Suc i = length (valid_kernels cfg)" and "length (valid_kernels cfg) < 2 ^ 31"
  shows "SetNextValue env problem cfg = Inr (False, cfg)"
proof -
  have "Suc i < 2 ^ 31" using assms by simp
  then have "size_t_of_int (of_nat (Suc i)) = Suc i" by (rule size_t_of_int_of_nat)
  moreover have "index cfg + 1 = of_nat (Suc i)" using assms(2) by simp
  ultimately have "size_t_of_int (index cfg + 1) = Suc i" by (simp only:)
  with assms show ?thesis by (simp add: SetNextValue_def)
qed

lemma example_SetNextValue_second:
  "SetNextValue example_env (example_problem miopenFloat 64 1)
     \<lparr> index = 0, kernel_id = ''Xdl_128x64x64'',
       valid_kernels = [''Xdl_128x64x64'', ''Xdl_64x32x32''] \<rparr>
   = Inr (True, \<lparr> index = 1, kernel_id = ''Xdl_64x32x32'',
                  valid_kernels = [''Xdl_128x64x64'', ''Xdl_64x32x32''] \<rparr>)"
  by (simp add: SetNextValue_def size_t_of_int_1)

text \<open>
  From a configuration that stands at entry \<open>i\<close> of its list, the remaining calls visit
  the entries after \<open>i\<close>, in order, and then a call returns false.
\<close>

lemma visit_all_rest:
  assumes "index cfg = of_nat i" and "i < length (valid_kernels cfg)"
    and "length (valid_kernels cfg) < 2 ^ 31" and "length (valid_kernels cfg) - i \<le> n"
  shows "visit_all n env problem cfg = Some (Inr (drop (Suc i) (valid_kernels cfg)))"
  using assms
proof (induction n arbitrary: i cfg)
  case 0
  then show ?case by simp
next
  case (Suc n)
  have ne: "valid_kernels cfg \<noteq> []" using Suc.prems by auto
  show ?case
  proof (cases "Suc i = length (valid_kernels cfg)")
    case True
    from SetNextValue_last [OF ne Suc.prems(1) True Suc.prems(3)] True
    show ?thesis by simp
  next
    case False
    then have lt: "Suc i < length (valid_kernels cfg)" using Suc.prems by simp
    let ?c = "cfg\<lparr> index := of_nat (Suc i), kernel_id := valid_kernels cfg ! Suc i \<rparr>"
    have step: "SetNextValue env problem cfg = Inr (True, ?c)"
      by (rule SetNextValue_step [OF ne Suc.prems(1) lt Suc.prems(3)])
    have "visit_all n env problem ?c = Some (Inr (drop (Suc (Suc i)) (valid_kernels ?c)))"
      using Suc.prems lt by (intro Suc.IH) auto
    with step lt show ?thesis
      by (simp add: Cons_nth_drop_Suc)
  qed
qed

subsection \<open>Claims about SetNextValue and the heuristic initialisation\<close>

text \<open>
  Claim C2, as amended. Let the configuration be freshly constructed, so that its
  \<open>valid_kernels\<close> is empty, and let \<open>HeuristicInit\<close> on it succeed with a non-empty
  list of fewer than \<open>2 ^ 31\<close> entries (the index is an \<^verbatim>\<open>int\<close>). Then the calls to
  \<open>SetNextValue\<close> visit every entry of \<open>valid_kernels\<close>, as \<open>kernel_id\<close>, exactly once and
  in order, and the call after the last entry returns false: any bound above the length
  of the list is enough for the loop to end there.
\<close>

theorem SetNextValue_visits_valid_kernels:
  assumes "valid_kernels cfg = []"
    and "HeuristicInit env problem cfg = Inr c0"
    and "valid_kernels c0 \<noteq> []"
    and "length (valid_kernels c0) < 2 ^ 31"
    and "length (valid_kernels c0) < n"
  shows "visit_all n env problem cfg = Some (Inr (valid_kernels c0))"
proof -
  obtain m where n: "n = Suc m" using assms(5) by (cases n) auto
  have first: "SetNextValue env problem cfg = Inr (True, c0)"
    using assms by (simp add: SetNextValue_def)
  from HeuristicInit_Inr [OF assms(2)] assms(1,3)
  have c0: "index c0 = of_nat 0" "kernel_id c0 = valid_kernels c0 ! 0" by auto
  have "visit_all m env problem c0 = Some (Inr (drop (Suc 0) (valid_kernels c0)))"
    using assms n by (intro visit_all_rest [OF c0(1)]) auto
  with first c0 assms(3) n show ?thesis
    by (simp add: Cons_nth_drop_Suc)
qed

theorem SetNextValue_visits_valid_kernels_witness:
  "visit_all 3 example_env (example_problem miopenFloat 64 1) example_config =
     Some (Inr [''Xdl_128x64x64'', ''Xdl_64x32x32''])"
  using SetNextValue_visits_valid_kernels [OF _ example_HeuristicInit, of 3]
  by (simp add: example_config_def)

text \<open>
  Claim C2 as stated, for every problem description, fails: for a problem whose input
  type is \<^verbatim>\<open>miopenInt8\<close>, \<open>HeuristicInit\<close> leaves \<open>valid_kernels\<close> empty. With
  assertions the first call of \<open>SetNextValue\<close> stops at its assertion. With \<^verbatim>\<open>NDEBUG\<close>
  it returns true and leaves the configuration as it was, so the next call is the same
  call again. In neither build does a call return false.
\<close>

theorem SetNextValue_unsupported_type_counterexample:
  "SetNextValue example_env (example_problem miopenInt8 64 1) example_config = Inl AssertionFailed
   \<and> SetNextValue (example_env\<lparr> NDEBUG := True \<rparr>) (example_problem miopenInt8 64 1) example_config
       = Inr (True, example_config)"
  by (simp add: SetNextValue_def HeuristicInit_def example_env_def example_problem_def
      example_config_def)

text \<open>
  Where the list is not empty after a call that returns true (which the assertion of
  \<open>SetNextValue\<close> checks in a build that has it), the configuration is valid and
  \<open>kernel_id\<close> is the entry at the index.
\<close>

lemma SetNextValue_true_valid_nonempty:
  assumes "SetNextValue env problem cfg = Inr (True, cfg')"
    and "\<not> NDEBUG env \<or> valid_kernels cfg' \<noteq> []"
  shows "IsValidValue cfg' \<and> kernel_id cfg' = valid_kernels cfg' ! size_t_of_int (index cfg')"
proof (cases "valid_kernels cfg = []")
  case True
  have "\<exists>c. HeuristicInit env problem cfg = Inr c \<and> cfg' = c
          \<and> (valid_kernels c \<noteq> [] \<or> NDEBUG env)"
    using assms(1) True
    by (cases "HeuristicInit env problem cfg") (simp_all add: SetNextValue_def split: if_splits)
  then obtain c where h: "HeuristicInit env problem cfg = Inr c" and c: "cfg' = c"
    and a: "valid_kernels c \<noteq> [] \<or> NDEBUG env"
    by blast
  from a assms(2) c have ne: "valid_kernels c \<noteq> []" by blast
  from HeuristicInit_Inr [OF h] True ne
  have "index c = 0 \<and> kernel_id c = valid_kernels c ! 0" by auto
  with ne c show ?thesis by (simp add: IsValidValue_def size_t_of_int_0)
next
  case False
  with assms(1) show ?thesis
    by (auto simp: SetNextValue_def IsValidValue_def split: if_splits)
qed



subsection \<open>Claims about IsApplicable\<close>

text \<open>
  Claim C5. Whenever a generic structural check fails (the input, weights and output
  types are not all equal, the direction is not forward, the problem is not 2-d, or the
  layout is not NHWC), \<open>IsApplicable\<close> returns false and has made no device- or
  library-specific query: neither the architecture check nor \<open>CheckCKApplicability\<close>.
\<close>

theorem IsApplicable_structural_checks_first:
  assumes "GetInDataType problem \<noteq> GetWeightsDataType problem
         \<or> GetWeightsDataType problem \<noteq> GetOutDataType problem
         \<or> GetInDataType problem \<noteq> GetOutDataType problem
         \<or> \<not> IsForward (direction problem)
         \<or> \<not> Is2d problem
         \<or> \<not> IsLayoutNHWC problem"
  shows "snd (IsApplicable env ctx problem) = Inr False
         \<and> fst (IsApplicable env ctx problem) = []"
  using assms by (auto simp: IsApplicable_def)

theorem IsApplicable_structural_checks_first_witness:
  "snd (IsApplicable example_env \<lparr> GetDeviceName = ''gfx90a'' \<rparr>
          ((example_problem miopenFloat 64 1)\<lparr> direction := BackwardData \<rparr>)) = Inr False
   \<and> fst (IsApplicable example_env \<lparr> GetDeviceName = ''gfx90a'' \<rparr>
          ((example_problem miopenFloat 64 1)\<lparr> direction := BackwardData \<rparr>)) = []"
  using IsApplicable_structural_checks_first
    [of "(example_problem miopenFloat 64 1)\<lparr> direction := BackwardData \<rparr>" example_env
        "\<lparr> GetDeviceName = ''gfx90a'' \<rparr>"]
  by (simp add: IsForward_def example_problem_def)

lemma CheckCKApplicability_True:
  assumes "CheckCKApplicability env t problem = Inr True"
  shows "GetAdjustedConvolutionStrideH problem = 1 \<and> GetAdjustedConvolutionStrideW problem = 1"
  using assms
  by (auto simp: CheckCKApplicability_def make_CKArgsGFwd_def Let_def split: if_splits)

lemma CheckCKApplicability_stride:
  assumes "GetAdjustedConvolutionStrideH problem \<noteq> 1 \<or> GetAdjustedConvolutionStrideW problem \<noteq> 1"
    and "GetInstances env t \<noteq> []"
  shows "CheckCKApplicability env t problem = Inr False"
  using assms
  by (auto simp: CheckCKApplicability_def make_CKArgsGFwd_def Let_def)

lemma example_IsApplicable:
  "IsApplicable example_env \<lparr> GetDeviceName = ''gfx90a'' \<rparr> (example_problem miopenFloat 64 1)
     = ([ArchitectureQuery, LibraryQuery float], Inr True)"
  by (simp add: IsApplicable_def IsForward_def CheckCKApplicability_def example_env_def
      example_problem_def example_instances_def make_CKArgsGFwd_def Let_def)

text \<open>
  Claim C9. \<open>IsApplicable\<close> returns true only if the device architecture is gfx908 or
  gfx90a, the input type is half or float, the weights and output types equal it, and
  both adjusted convolution strides are 1. For a problem with a stride other than 1,
  \<open>CheckCKApplicability\<close> never returns true, and returns false whenever the library has
  an instance at all for the element type (its first line asserts that it has).
\<close>

theorem IsApplicable_true_only_if:
  "(snd (IsApplicable env ctx problem) = Inr True \<longrightarrow>
      (GetDeviceName ctx = ''gfx908'' \<or> GetDeviceName ctx = ''gfx90a'')
      \<and> (GetInDataType problem = miopenHalf \<or> GetInDataType problem = miopenFloat)
      \<and> GetWeightsDataType problem = GetInDataType problem
      \<and> GetOutDataType problem = GetInDataType problem
      \<and> GetAdjustedConvolutionStrideH problem = 1
      \<and> GetAdjustedConvolutionStrideW problem = 1)
   \<and> ((GetAdjustedConvolutionStrideH problem \<noteq> 1 \<or> GetAdjustedConvolutionStrideW problem \<noteq> 1) \<longrightarrow>
        CheckCKApplicability env t problem \<noteq> Inr True
        \<and> (GetInstances env t \<noteq> [] \<longrightarrow> CheckCKApplicability env t problem = Inr False))"
proof (intro conjI impI)
  assume a: "snd (IsApplicable env ctx problem) = Inr True"
  then have pre: "GetInDataType problem = GetWeightsDataType problem"
      "GetWeightsDataType problem = GetOutDataType problem"
      "GetDeviceName ctx = ''gfx908'' \<or> GetDeviceName ctx = ''gfx90a''"
    by (auto simp: IsApplicable_def Let_def split: if_splits)
  from pre show "GetDeviceName ctx = ''gfx908'' \<or> GetDeviceName ctx = ''gfx90a''" by simp
  from pre show "GetWeightsDataType problem = GetInDataType problem" by simp
  from pre show "GetOutDataType problem = GetInDataType problem" by simp
  from a have ck:
    "(GetInDataType problem = miopenHalf \<and> CheckCKApplicability env half_t problem = Inr True)
     \<or> (GetInDataType problem = miopenFloat \<and> CheckCKApplicability env float problem = Inr True)"
    by (auto simp: IsApplicable_def Let_def split: if_splits miopenDataType.splits)
  then show "GetInDataType problem = miopenHalf \<or> GetInDataType problem = miopenFloat" by auto
  from ck show "GetAdjustedConvolutionStrideH problem = 1"
    by (auto dest: CheckCKApplicability_True)
  from ck show "GetAdjustedConvolutionStrideW problem = 1"
    by (auto dest: CheckCKApplicability_True)
next
  assume "GetAdjustedConvolutionStrideH problem \<noteq> 1 \<or> GetAdjustedConvolutionStrideW problem \<noteq> 1"
  then show "CheckCKApplicability env t problem \<noteq> Inr True"
    by (auto dest: CheckCKApplicability_True)
next
  assume "GetAdjustedConvolutionStrideH problem \<noteq> 1 \<or> GetAdjustedConvolutionStrideW problem \<noteq> 1"
    and "GetInstances env t \<noteq> []"
  then show "CheckCKApplicability env t problem = Inr False"
    by (rule CheckCKApplicability_stride)
qed

theorem IsApplicable_true_only_if_witness:
  "snd (IsApplicable example_env \<lparr> GetDeviceName = ''gfx90a'' \<rparr> (example_problem miopenFloat 64 1))
     = Inr True
   \<and> GetDeviceName \<lparr> GetDeviceName = ''gfx90a'' \<rparr> = ''gfx90a''
   \<and> GetInDataType (example_problem miopenFloat 64 1) = miopenFloat
   \<and> GetWeightsDataType (example_problem miopenFloat 64 1) = miopenFloat
   \<and> GetOutDataType (example_problem miopenFloat 64 1) = miopenFloat
   \<and> GetAdjustedConvolutionStrideH (example_problem miopenFloat 64 1) = 1
   \<and> GetAdjustedConvolutionStrideW (example_problem miopenFloat 64 1) = 1
   \<and> GetAdjustedConvolutionStrideH (example_problem miopenFloat 64 2) = 2
   \<and> GetInstances example_env float = example_instances
   \<and> CheckCKApplicability example_env float (example_problem miopenFloat 64 2) = Inr False"
  using IsApplicable_true_only_if
      [of example_env "\<lparr> GetDeviceName = ''gfx90a'' \<rparr>" "example_problem miopenFloat 64 1" float]
    IsApplicable_true_only_if
      [of example_env "\<lparr> GetDeviceName = ''gfx90a'' \<rparr>" "example_problem miopenFloat 64 2" float]
    example_IsApplicable
  by (simp add: example_problem_def example_env_def example_instances_def)

section \<open>Properties of the cat solver\<close>

text \<open>
  Within the tensor-count limit \<open>CatForward::IsApplicable\<close> returns a truth value: the
  conjunction of the remaining checks.
\<close>

lemma CatForward_IsApplicable_within_limit:
  assumes "GetXCount problem \<le> 8"
  shows "CatForward_IsApplicable context problem =
           Inr (IsSameType problem \<and> IsRightDim problem \<and> IsRightLength problem
                \<and> IsAllPacked problem \<and> 1000000 \<le> GetYDescElementSize problem)"
  using assms
  by (auto simp: CatForward_IsApplicable_def IsUnderXCountLimit_def MAX_TENSOR_X_COUNT_def
      IsImprovementOverROCm_def MIN_OUTPUT_TENSOR_SIZE_def)

text \<open>
  Claim C1 says that \<open>CatForward::IsApplicable\<close> never throws and returns false when the
  tensor count exceeds the limit. For nine tensors the code raises
  \<^verbatim>\<open>miopenStatusBadParm\<close> from \<open>IsUnderXCountLimit\<close>; the \<^verbatim>\<open>return false\<close> that the caller
  has for this check is never reached.
\<close>

theorem CatForward_IsApplicable_throws:
  "CatForward_IsApplicable () (example_cat_problem 9) = Inl miopenStatusBadParm"
  by (simp add: CatForward_IsApplicable_def IsUnderXCountLimit_def MAX_TENSOR_X_COUNT_def
      example_cat_problem_def)

lemma fusion_size_loop_2: "x \<le> 2 \<Longrightarrow> fusion_size_loop 2 x = Some (Inr 2)"
  by (subst fusion_size_loop.simps) simp

lemma fusion_size_loop_4: "2 < x \<Longrightarrow> x \<le> 4 \<Longrightarrow> fusion_size_loop 2 x = Some (Inr 4)"
  by (subst fusion_size_loop.simps, simp, subst fusion_size_loop.simps, simp)

lemma fusion_size_loop_8: "4 < x \<Longrightarrow> x \<le> 8 \<Longrightarrow> fusion_size_loop 2 x = Some (Inr 8)"
  by (subst fusion_size_loop.simps, simp, subst fusion_size_loop.simps, simp,
      subst fusion_size_loop.simps, simp)

lemma power2_ge_3: "(3::int) \<le> 2 ^ j \<Longrightarrow> (4::int) \<le> 2 ^ j"
proof -
  assume a: "(3::int) \<le> 2 ^ j"
  have "2 \<le> j"
  proof (rule ccontr)
    assume "\<not> 2 \<le> j"
    then have "j = 0 \<or> j = 1" by auto
    with a show False by auto
  qed
  then have "(2::int) ^ 2 \<le> 2 ^ j" by (intro power_increasing) auto
  then show ?thesis by simp
qed

lemma power2_ge_5: "(5::int) \<le> 2 ^ j \<Longrightarrow> (8::int) \<le> 2 ^ j"
proof -
  assume a: "(5::int) \<le> 2 ^ j"
  have "3 \<le> j"
  proof (rule ccontr)
    assume "\<not> 3 \<le> j"
    then have "j = 0 \<or> j = 1 \<or> j = 2" by auto
    with a show False by auto
  qed
  then have "(2::int) ^ 3 \<le> 2 ^ j" by (intro power_increasing) auto
  then show ?thesis by simp
qed

text \<open>
  For a tensor count from 1 to 8 the doubling loop ends, with the least power of two
  that is at least the count and at least 2.
\<close>

lemma fusion_size_loop_least_power:
  assumes "1 \<le> x" and "x \<le> 8"
  shows "fusion_size_loop 2 x = Some (Inr (if x \<le> 2 then 2 else if x \<le> 4 then 4 else 8))
         \<and> (\<exists>k. fusion_size_loop 2 x = Some (Inr (2 ^ k))
                \<and> x \<le> 2 ^ k \<and> (2::int) \<le> 2 ^ k
                \<and> (\<forall>j. x \<le> 2 ^ j \<and> (2::int) \<le> 2 ^ j \<longrightarrow> (2::int) ^ k \<le> 2 ^ j))"
proof -
  consider "x \<le> 2" | "2 < x" "x \<le> 4" | "4 < x" "x \<le> 8"
    using assms by linarith
  then show ?thesis
  proof cases
    case 1
    then have f: "fusion_size_loop 2 x = Some (Inr (2 ^ 1))"
      by (simp add: fusion_size_loop_2)
    have "\<forall>j. x \<le> 2 ^ j \<and> (2::int) \<le> 2 ^ j \<longrightarrow> (2::int) ^ 1 \<le> 2 ^ j"
      by simp
    with f 1 show ?thesis
      by (intro conjI exI [of _ 1]) simp_all
  next
    case 2
    then have f: "fusion_size_loop 2 x = Some (Inr (2 ^ 2))"
      by (simp add: fusion_size_loop_4)
    have "\<forall>j. x \<le> 2 ^ j \<and> (2::int) \<le> 2 ^ j \<longrightarrow> (2::int) ^ 2 \<le> 2 ^ j"
      using 2 power2_ge_3 by fastforce
    with f 2 show ?thesis
      by (intro conjI exI [of _ 2]) simp_all
  next
    case 3
    then have f: "fusion_size_loop 2 x = Some (Inr (2 ^ 3))"
      by (simp add: fusion_size_loop_8)
    have "\<forall>j. x \<le> 2 ^ j \<and> (2::int) \<le> 2 ^ j \<longrightarrow> (2::int) ^ 3 \<le> 2 ^ j"
      using 3 power2_ge_5 by fastforce
    with f 3 show ?thesis
      by (intro conjI exI [of _ 3]) simp_all
  qed
qed

lemma example_GetSolution_geometry:
  "GetSolution_geometry example_context (example_cat_problem 3)
     = Inr ([256, 1, 1], [212992, 1, 1])"
  by (simp add: GetSolution_geometry_def example_context_def example_cat_problem_def
      at_index_def x_dim_size_max_loop.simps outer_size_of_def work_sizes_def Let_def
      static_cast_int_def size_t_of_def std_min_def std_max_def LOCAL_SIZE_def AlignUp_def)

text \<open>
  For a tensor count from 1 to 8, whenever the launch geometry of \<open>GetSolution\<close> is
  computed (every read is in range and no divisor is zero), \<open>GetSolution\<close> returns a
  solution with these work sizes whose kernel is named Cat2FwdPacked for a count up to
  2, Cat4FwdPacked for 3 and 4, and Cat8FwdPacked for 5 to 8; the fusion width is the
  least power of two that is at least the count and at least 2.
\<close>

lemma GetSolution_names_kernel:
  assumes "1 \<le> GetXCount problem" and "GetXCount problem \<le> 8"
    and "GetSolution_geometry context problem = Inr (local_sizes, grid_sizes)"
  shows "(\<exists>sol. GetSolution context problem = Some (Inr sol)
            \<and> kernel_name sol =
                (if GetXCount problem \<le> 2 then ''Cat2FwdPacked''
                 else if GetXCount problem \<le> 4 then ''Cat4FwdPacked''
                 else ''Cat8FwdPacked'')
            \<and> kernel_file sol = ''MIOpenCat.cpp''
            \<and> l_wk sol = local_sizes \<and> g_wk sol = grid_sizes)
         \<and> (\<exists>k. fusion_size_loop 2 (GetXCount problem) = Some (Inr (2 ^ k))
                \<and> GetXCount problem \<le> 2 ^ k \<and> (2::int) \<le> 2 ^ k
                \<and> (\<forall>j. GetXCount problem \<le> 2 ^ j \<and> (2::int) \<le> 2 ^ j
                       \<longrightarrow> (2::int) ^ k \<le> 2 ^ j))"
proof -
  note f = fusion_size_loop_least_power [OF assms(1,2)]
  from f have loop: "fusion_size_loop 2 (GetXCount problem) =
      Some (Inr (if GetXCount problem \<le> 2 then 2 else if GetXCount problem \<le> 4 then 4 else 8))"
    by simp
  have "\<exists>sol. GetSolution context problem = Some (Inr sol)
            \<and> kernel_name sol =
                (if GetXCount problem \<le> 2 then ''Cat2FwdPacked''
                 else if GetXCount problem \<le> 4 then ''Cat4FwdPacked''
                 else ''Cat8FwdPacked'')
            \<and> kernel_file sol = ''MIOpenCat.cpp''
            \<and> l_wk sol = local_sizes \<and> g_wk sol = grid_sizes"
    using assms(3) loop by (auto simp: GetSolution_def kernel_name_switch_def Let_def)
  moreover from f have "\<exists>k. fusion_size_loop 2 (GetXCount problem) = Some (Inr (2 ^ k))
                \<and> GetXCount problem \<le> 2 ^ k \<and> (2::int) \<le> 2 ^ k
                \<and> (\<forall>j. GetXCount problem \<le> 2 ^ j \<and> (2::int) \<le> 2 ^ j
                       \<longrightarrow> (2::int) ^ k \<le> 2 ^ j)"
    by (rule conjunct2)
  ultimately show ?thesis by (rule conjI)
qed

lemma example_GetSolution:
  "GetSolution example_context (example_cat_problem 3) =
     Some (Inr \<lparr> build_params = [(''MIOPEN_USE_FP16'', 0), (''MIOPEN_USE_FP32'', 1),
                                 (''MIOPEN_USE_FP64'', 0), (''MIOPEN_USE_BFP16'', 0)],
                 l_wk = [256, 1, 1], g_wk = [212992, 1, 1],
                 kernel_file = ''MIOpenCat.cpp'', kernel_name = ''Cat4FwdPacked'' \<rparr>)"
proof -
  have x: "GetXCount (example_cat_problem 3) = 3"
    and t: "GetYDescType (example_cat_problem 3) = miopenFloat"
    by (simp_all add: example_cat_problem_def)
  from x GetSolution_names_kernel [OF _ _ example_GetSolution_geometry]
  obtain sol where "GetSolution example_context (example_cat_problem 3) = Some (Inr sol)"
    and "kernel_name sol = ''Cat4FwdPacked''" and "l_wk sol = [256, 1, 1]"
    by auto
  then show ?thesis
    by (auto simp: GetSolution_def example_GetSolution_geometry x t Let_def
        split: option.splits sum.splits)
qed

text \<open>
  Claim C8 says that for every cat problem with a tensor count from 1 to 8
  \<open>GetSolution\<close> names the kernel by the count. For two packed inputs of 65536 by 65536
  elements joined along dimension 0, a problem that \<open>IsApplicable\<close> accepts, the product
  of the largest input length and the stride is \<open>2 ^ 32\<close>, its \<^verbatim>\<open>static_cast<int>\<close> is
  0, \<^verbatim>\<open>xlocalsize\<close> is 0, and \<^verbatim>\<open>LOCAL_SIZE / xlocalsize\<close> divides by zero before any kernel
  is named.
\<close>

theorem GetSolution_divides_by_zero:
  "GetSolution example_context example_cat_problem_large = Some (Inl DivisionByZero)
   \<and> GetXCount example_cat_problem_large = 2
   \<and> CatForward_IsApplicable example_context example_cat_problem_large = Inr True"
  by (simp add: GetSolution_def GetSolution_geometry_def example_context_def
      example_cat_problem_large_def at_index_def x_dim_size_max_loop.simps outer_size_of_def
      work_sizes_def Let_def static_cast_int_def size_t_of_def std_min_def std_max_def
      LOCAL_SIZE_def AlignUp_def CatForward_IsApplicable_def IsUnderXCountLimit_def
      MAX_TENSOR_X_COUNT_def IsImprovementOverROCm_def MIN_OUTPUT_TENSOR_SIZE_def)

section \<open>Properties of the preload states\<close>

lemma StartPreloadingDb_started [simp]:
  "started_loading (StartPreloadingDb path preloader states) = started_loading states"
  by (simp add: StartPreloadingDb_def split: option.splits)

lemma run_preload_started [simp]:
  "started_loading (run_preload tables states) = started_loading states"
  by (induction tables states rule: run_preload.induct) simp_all

lemma GetPreloaded_started [simp]:
  "started_loading (snd (GetPreloaded path states)) = started_loading states"
  by (simp add: GetPreloaded_def)

lemma TryStartPreloadingDbs_started [simp]:
  "started_loading (snd (TryStartPreloadingDbs preload states))"
  by (simp add: TryStartPreloadingDbs_def)

lemma run_ops_started:
  "started_loading states \<Longrightarrow>
     fst (run_ops ops states) = 0 \<and> started_loading (snd (run_ops ops states))"
proof (induction ops arbitrary: states)
  case Nil
  then show ?case by simp
next
  case (Cons op ops)
  show ?case
  proof (cases op)
    case (TryStart preload)
    have "TryStartPreloadingDbs preload states = (False, states)"
      using Cons.prems by (simp add: TryStartPreloadingDbs_def)
    with Cons.IH [OF Cons.prems] TryStart show ?thesis
      by (simp split: prod.splits)
  next
    case (Start path preloader)
    with Cons.IH [of "StartPreloadingDb path preloader states"] Cons.prems
    show ?thesis by simp
  next
    case (Get path)
    with Cons.IH [of "snd (GetPreloaded path states)"] Cons.prems
    show ?thesis by simp
  qed
qed

lemma run_ops_at_most_once: "fst (run_ops ops states) \<le> 1"
proof (induction ops arbitrary: states)
  case Nil
  then show ?case by simp
next
  case (Cons op ops)
  show ?case
  proof (cases op)
    case (TryStart preload)
    obtain invoked states' where t: "TryStartPreloadingDbs preload states = (invoked, states')"
      by (cases "TryStartPreloadingDbs preload states")
    then have "started_loading states'"
      using TryStartPreloadingDbs_started [of preload states] by simp
    then have "fst (run_ops ops states') = 0" by (simp add: run_ops_started)
    then obtain states'' where "run_ops ops states' = (0, states'')"
      by (cases "run_ops ops states'") simp
    with t TryStart show ?thesis by simp
  next
    case (Start path preloader)
    with Cons.IH show ?thesis by simp
  next
    case (Get path)
    with Cons.IH show ?thesis by simp
  qed
qed

text \<open>
  Claim C6. Along every sequence of operations on one \<open>DbPreloadStates\<close> instance the
  preload action is invoked at most once. A new instance holds the flag
  \<open>started_loading\<close> as false, a call of \<open>TryStartPreloadingDbs\<close> leaves it true, and
  once it is true no later operation invokes the action again or sets the flag back.
\<close>

theorem preload_at_most_once_flag_stays:
  "fst (run_ops ops states) \<le> 1
   \<and> (started_loading states \<longrightarrow>
        fst (run_ops ops states) = 0 \<and> started_loading (snd (run_ops ops states)))
   \<and> (\<not> started_loading (new_DbPreloadStates :: 'p DbPreloadStates))
   \<and> started_loading (snd (TryStartPreloadingDbs preload (new_DbPreloadStates :: 'p DbPreloadStates)))"
  using run_ops_at_most_once [of ops states] run_ops_started [of states ops]
  by (simp add: new_DbPreloadStates_def)

theorem preload_at_most_once_flag_stays_witness:
  "started_loading (snd (TryStartPreloadingDbs [(''perf.db'', 0::nat)] new_DbPreloadStates))
   \<and> fst (run_ops [Get ''perf.db'', TryStart [(''perf.db'', 0)], Start ''find.db'' 1, TryStart []]
            (snd (TryStartPreloadingDbs [(''perf.db'', 0::nat)] new_DbPreloadStates))) = 0
   \<and> started_loading
        (snd (run_ops [Get ''perf.db'', TryStart [(''perf.db'', 0)], Start ''find.db'' 1, TryStart []]
               (snd (TryStartPreloadingDbs [(''perf.db'', 0::nat)] new_DbPreloadStates))))
   \<and> fst (run_ops [TryStart [(''perf.db'', 0::nat)], Get ''perf.db'', TryStart [(''perf.db'', 0)]]
            new_DbPreloadStates) = 1"
  using preload_at_most_once_flag_stays
    [of "[Get ''perf.db'', TryStart [(''perf.db'', 0)], Start ''find.db'' 1, TryStart []]"
        "snd (TryStartPreloadingDbs [(''perf.db'', 0::nat)] new_DbPreloadStates)"]
  by (simp add: TryStartPreloadingDbs_def new_DbPreloadStates_def StartPreloadingDb_def
      GetPreloaded_def)

end
